theory Spec2Isabelle
  imports Complex_Main "HOL-Library.Sublist"
begin

section \<open>Data model of \<open>icinga2/icinga.go\<close>\<close>

subsection \<open>Numbers and strings of the Go runtime\<close>

text \<open>
  The field \<open>Code\<close> of a result item is a Go \<open>float64\<close>. The program only ever compares
  it with the constant \<open>400.0\<close>, so a value is modelled by what decides an IEEE comparison:
  a finite number (taken in the reals, which contain every finite double), one of the two
  infinities, or a NaN.
\<close>

datatype float64 = Finite real | PosInf | NegInf | NaN

text \<open>The Go operator \<open>>=\<close> on two \<open>float64\<close> values: false as soon as one side is a NaN.\<close>

fun float64_ge :: "float64 \<Rightarrow> float64 \<Rightarrow> bool" where
  "float64_ge NaN y = False"
| "float64_ge x NaN = False"
| "float64_ge PosInf y = True"
| "float64_ge x NegInf = True"
| "float64_ge NegInf y = False"
| "float64_ge x PosInf = False"
| "float64_ge (Finite a) (Finite b) = (b \<le> a)"

text \<open>
  \<open>strings.Join(elems, sep)\<close> of the Go standard library: the elements in order, with
  \<open>sep\<close> between each two neighbours; the empty string for no element.
\<close>

fun Join :: "string list \<Rightarrow> string \<Rightarrow> string" where
  "Join [] sep = []"
| "Join [e] sep = e"
| "Join (e # e' # es) sep = e @ sep @ Join (e' # es) sep"

text \<open>
  \<open>strings.TrimRight(s, cutset)\<close> with a cutset of one ASCII byte, the only way the program
  calls it, is the standard library's loop \<open>trimRightByte\<close>:
  \<^verbatim>\<open>for len(s) > 0 && s[len(s)-1] == c { s = s[:len(s)-1] }\<close>
\<close>

function trimRightByte :: "string \<Rightarrow> char \<Rightarrow> string" where
  "trimRightByte s c = (if s \<noteq> [] \<and> last s = c then trimRightByte (butlast s) c else s)"
  by pat_completeness auto
termination
  by (relation "measure (\<lambda>(s, c). length s)") auto

declare trimRightByte.simps [simp del]

subsection \<open>Errors and outcomes\<close>

text \<open>
  A Go \<open>error\<close> value is either one the function received from its caller (any value
  \<open>'e\<close>, never inspected) or the one \<open>fmt.Errorf\<close> builds from a formatted text.
  A call either returns an \<open>error\<close> (\<open>nil\<close> is \<open>None\<close>) or panics on a nil pointer.
\<close>

datatype 'e error = Foreign 'e | Errorf string

datatype 'e outcome = Return "'e error option" | Panic

subsection \<open>The response types\<close>

text \<open>One element of \<open>Results.Results\<close> (an anonymous struct in the source).\<close>

record Result =
  Code :: float64
  Errors :: "string list"
  Status :: string
  Name :: string
  Type :: string

record Results =
  Results :: "Result list"

text \<open>
  What the program reads of \<open>*http.Response\<close> and of \<open>*napping.Response\<close>: the status line,
  the status code, and the accessor \<open>HttpResponse()\<close>, which may hand out \<open>nil\<close>.
\<close>

record http_Response =
  Status :: string
  StatusCode :: int

record napping_Response =
  HttpResponse :: "http_Response option"

section \<open>The reconciler \<open>handleResults\<close>\<close>

text \<open>
  The body of both \<open>for ... range\<close> loops, for one item \<open>r\<close> and the report so far:
  \<^verbatim>\<open>if r.Code >= 400.0 { resultReport += r.Status + " " + strings.Join(r.Errors, " ") + " " }\<close>
\<close>

definition appendReport :: "string \<Rightarrow> Result \<Rightarrow> string" where
  "appendReport resultReport r =
     (if float64_ge (Code r) (Finite 400)
      then resultReport @ Result.Status r @ '' '' @ Join (Errors r) '' '' @ '' ''
      else resultReport)"

text \<open>One \<open>for _, r := range xs\<close> loop: the body applied to the items from first to last.\<close>

definition scanResults :: "string \<Rightarrow> Result list \<Rightarrow> string" where
  "scanResults resultReport xs = foldl appendReport resultReport xs"

text \<open>
  \<open>handleResults(typ, path, resp, results, errmsg, oerr)\<close>. The three pointer arguments
  are options (\<open>None\<close> is \<open>nil\<close>); reading through a nil pointer is the outcome \<open>Panic\<close>,
  at the statement where the source dereferences it.
\<close>

definition handleResults ::
  "string \<Rightarrow> string \<Rightarrow> napping_Response option \<Rightarrow> Results option \<Rightarrow> Results option
     \<Rightarrow> 'e error option \<Rightarrow> 'e outcome" where
  "handleResults typ path resp results errmsg oerr =
     (case oerr of
        Some e \<Rightarrow> Return oerr
      | None \<Rightarrow>
         (case results of
            None \<Rightarrow> Panic
          | Some rs \<Rightarrow>
             (let resultReport = scanResults [] (Results rs) in
              (case errmsg of
                 None \<Rightarrow> Panic
               | Some es \<Rightarrow>
                  (let resultReport = scanResults resultReport (Results es) in
                   (case resp of
                      None \<Rightarrow> Panic
                    | Some rp \<Rightarrow>
                       (case HttpResponse rp of
                          None \<Rightarrow> Panic
                        | Some hr \<Rightarrow>
                           if 400 \<le> StatusCode hr
                           then Return (Some (Errorf (typ @ '' '' @ path @ '' : ''
                                   @ http_Response.Status hr @ '' - '' @ resultReport)))
                           else if resultReport \<noteq> []
                           then Return (Some (Errorf (typ @ '' '' @ path @ '' : ''
                                   @ resultReport @ [CHR 0x0A])))
                           else Return oerr)))))))"

text \<open>
  The accumulated message in the words of the specification: every item whose code is
  at least 400 contributes its status, a space, its error strings joined by single
  spaces, and a trailing space; the "results" sequence is visited first, the
  "error-channel" sequence second, each in item order.
\<close>

definition failing :: "Result \<Rightarrow> bool" where
  "failing r = float64_ge (Code r) (Finite 400)"

definition item_message :: "Result \<Rightarrow> string" where
  "item_message r = Result.Status r @ '' '' @ Join (Errors r) '' '' @ '' ''"

definition accumulated :: "Result list \<Rightarrow> Result list \<Rightarrow> string" where
  "accumulated results errmsg = concat (map item_message (filter failing (results @ errmsg)))"

section \<open>The live client\<close>

text \<open>
  What \<open>New\<close> builds: the TLS configuration, the HTTP transport and client around it, the
  credentials, and the session of the \<open>napping\<close> library that holds them. The type
  \<open>'pool\<close> stands for \<open>x509.CertPool\<close>; a pointer field is an option.
\<close>

record 'pool tls_Config =
  InsecureSkipVerify :: bool
  RootCAs :: "'pool option"

record 'pool http_Transport =
  TLSClientConfig :: "'pool tls_Config"
  DisableKeepAlives :: bool

record 'pool http_Client =
  Transport :: "'pool http_Transport"

record url_Userinfo =
  username :: string
  password :: string

record 'pool napping_Session =
  Log :: bool
  Client :: "'pool http_Client option"
  Userinfo :: "url_Userinfo option"

record 'pool WebClient =
  napping :: "'pool napping_Session"
  URL :: string
  Username :: string
  Password :: string
  Debug :: bool
  InsecureTLS :: bool
  DisableKeepAlives :: bool
  Zone :: string
  RootCAs :: "'pool option"

text \<open>
  \<open>New(s)\<close>. The first argument is the pair that \<open>x509.SystemCertPool()\<close> returns, a pool
  and an error; the source keeps the pool and drops the error (\<open>rootCAs, _ = ...\<close>). The
  result is the updated copy of \<open>s\<close> and the returned \<open>error\<close>.
\<close>

definition New ::
  "'pool option \<times> 'e error option \<Rightarrow> 'pool WebClient
     \<Rightarrow> 'pool WebClient \<times> 'e error option" where
  "New SystemCertPool s =
     (let rootCAs = WebClient.RootCAs s;
          rootCAs = (if rootCAs = None then fst SystemCertPool else rootCAs);
          transport = \<lparr>TLSClientConfig =
                         \<lparr>InsecureSkipVerify = InsecureTLS s, RootCAs = rootCAs\<rparr>,
                       DisableKeepAlives = WebClient.DisableKeepAlives s\<rparr>;
          client = \<lparr>Transport = transport\<rparr>;
          s = s\<lparr>napping := \<lparr>Log = Debug s, Client = Some client,
                  Userinfo = Some \<lparr>username = Username s, password = Password s\<rparr>\<rparr>\<rparr>;
          s = s\<lparr>URL := trimRightByte (URL s) (CHR ''/'')\<rparr>
      in (s, None))"

text \<open>
  \<open>CreateObject\<close> and \<open>UpdateObject\<close>. The calls \<open>s.napping.Put\<close> and \<open>s.napping.Post\<close>
  belong to the \<open>napping\<close> library and are parameters: given the session, the URL, the
  payload and the two zero-valued \<open>Results\<close> whose addresses are passed, they give back
  the response pointer, the two \<open>Results\<close> as the library filled them, and the error.
\<close>

type_synonym ('pool, 'p, 'e) napping_call =
  "'pool napping_Session \<Rightarrow> string \<Rightarrow> 'p \<Rightarrow> Results \<Rightarrow> Results
     \<Rightarrow> napping_Response option \<times> Results \<times> Results \<times> 'e error option"

definition CreateObject ::
  "('pool, 'p, 'e) napping_call \<Rightarrow> 'pool WebClient \<Rightarrow> string \<Rightarrow> 'p \<Rightarrow> 'e outcome" where
  "CreateObject Put s path create =
     (let results = \<lparr>Results = []\<rparr>; errmsg = \<lparr>Results = []\<rparr>;
          (resp, results, errmsg, err) =
             Put (napping s) (URL s @ ''/v1/objects'' @ path) create results errmsg
      in handleResults ''create'' path resp (Some results) (Some errmsg) err)"

definition UpdateObject ::
  "('pool, 'p, 'e) napping_call \<Rightarrow> 'pool WebClient \<Rightarrow> string \<Rightarrow> 'p \<Rightarrow> 'e outcome" where
  "UpdateObject Post s path create =
     (let results = \<lparr>Results = []\<rparr>; errmsg = \<lparr>Results = []\<rparr>;
          (resp, results, errmsg, err) =
             Post (napping s) (URL s @ ''/v1/objects'' @ path) create results errmsg
      in handleResults ''update'' path resp (Some results) (Some errmsg) err)"

section \<open>The mock client\<close>

text \<open>
  The four Go maps are partial functions from the key. The types \<open>HostGroup\<close>, \<open>Host\<close>,
  \<open>Service\<close> and \<open>Action\<close> are declared in other files of the package and stay type
  parameters. A \<open>sync.Mutex\<close> is locked or not; its zero value is unlocked.
\<close>

datatype sync_Mutex = Unlocked | Locked

record ('hg, 'h, 's, 'a) MockClient =
  Hostgroups :: "string \<rightharpoonup> 'hg"
  Hosts :: "string \<rightharpoonup> 'h"
  Services :: "string \<rightharpoonup> 's"
  Actions :: "string \<rightharpoonup> 'a list"
  mutex :: sync_Mutex

definition NewMockClient :: "('hg, 'h, 's, 'a) MockClient" where
  "NewMockClient =
     \<lparr>Hostgroups = Map.empty, Hosts = Map.empty, Services = Map.empty, Actions = Map.empty,
      mutex = Unlocked\<rparr>"

section \<open>Facts about the loops\<close>

lemma appendReport_eq:
  "appendReport acc r = acc @ (if failing r then item_message r else [])"
  by (simp add: appendReport_def failing_def item_message_def)

lemma scanResults_eq:
  "scanResults acc xs = acc @ concat (map item_message (filter failing xs))"
  unfolding scanResults_def
  by (induction xs arbitrary: acc) (simp_all add: appendReport_eq)

lemma scanResults_twice:
  "scanResults (scanResults [] rs) es = accumulated rs es"
  by (simp add: scanResults_eq accumulated_def)

lemma item_message_not_Nil: "item_message r \<noteq> []"
  by (simp add: item_message_def)

lemma accumulated_Nil_iff:
  "accumulated rs es = [] \<longleftrightarrow> (\<forall>r\<in>set rs. \<not> failing r) \<and> (\<forall>r\<in>set es. \<not> failing r)"
  by (auto simp: accumulated_def item_message_not_Nil filter_empty_conv)



lemma handleResults_present:
  "handleResults typ path (Some \<lparr>HttpResponse = Some hr\<rparr>) (Some results) (Some errmsg) None =
     (if 400 \<le> StatusCode hr
      then Return (Some (Errorf (typ @ '' '' @ path @ '' : '' @ http_Response.Status hr
              @ '' - '' @ accumulated (Results results) (Results errmsg))))
      else if accumulated (Results results) (Results errmsg) \<noteq> []
      then Return (Some (Errorf (typ @ '' '' @ path @ '' : ''
              @ accumulated (Results results) (Results errmsg) @ [CHR 0x0A])))
      else Return None)"
  by (simp add: handleResults_def scanResults_twice Let_def)






section \<open>Facts about trimming\<close>

lemma trimRightByte_dropWhile:
  "trimRightByte s c = rev (dropWhile (\<lambda>x. x = c) (rev s))"
proof (induction s c rule: trimRightByte.induct)
  case (1 s c)
  show ?case
  proof (cases "s \<noteq> [] \<and> last s = c")
    case True
    then have s: "s = butlast s @ [c]" by (metis append_butlast_last_id)
    have "trimRightByte s c = trimRightByte (butlast s) c"
      using True by (subst trimRightByte.simps) simp
    also have "\<dots> = rev (dropWhile (\<lambda>x. x = c) (rev (butlast s)))"
      using 1 True by simp
    also have "\<dots> = rev (dropWhile (\<lambda>x. x = c) (rev (butlast s @ [c])))"
      by simp
    finally show ?thesis using s by simp
  next
    case False
    then have "trimRightByte s c = s"
      by (subst trimRightByte.simps) auto
    moreover have "dropWhile (\<lambda>x. x = c) (rev s) = rev s"
      using False by (cases s rule: rev_cases) auto
    ultimately show ?thesis by simp
  qed
qed

lemma trimRightByte_decomp:
  "\<exists>n. s = trimRightByte s c @ replicate n c"
proof -
  let ?P = "\<lambda>x. x = c"
  have "rev s = takeWhile ?P (rev s) @ dropWhile ?P (rev s)" by simp
  then have "s = rev (dropWhile ?P (rev s)) @ rev (takeWhile ?P (rev s))"
    by (metis rev_append rev_rev_ident)
  moreover have "takeWhile ?P (rev s) = replicate (length (takeWhile ?P (rev s))) c"
    by (rule replicate_length_same [symmetric]) (auto dest: set_takeWhileD)
  ultimately have "s = trimRightByte s c @ replicate (length (takeWhile ?P (rev s))) c"
    by (metis trimRightByte_dropWhile rev_replicate)
  then show ?thesis ..
qed

lemma trimRightByte_last:
  "trimRightByte s c = [] \<or> last (trimRightByte s c) \<noteq> c"
proof (cases "dropWhile (\<lambda>x. x = c) (rev s) = []")
  case True
  then show ?thesis by (simp add: trimRightByte_dropWhile)
next
  case False
  then have "hd (dropWhile (\<lambda>x. x = c) (rev s)) \<noteq> c"
    using hd_dropWhile [of "\<lambda>x. x = c" "rev s"] by simp
  with False show ?thesis
    by (simp add: trimRightByte_dropWhile last_rev)
qed

section \<open>Short-circuit on a transport error\<close>

text \<open>
  C2. Whatever the kind, the path, the response and the two result sequences are (nil
  pointers included), a call that receives a non-nil error \<open>e\<close> returns that very value:
  nothing is composed and nothing else decides the result.
\<close>

theorem handleResults_returns_transport_error:
  "handleResults typ path resp results errmsg (Some e) = Return (Some e)"
  by (simp add: handleResults_def)

text \<open>
  C9. With a transport error present the call does not panic and its outcome does not
  depend on the kind, the path, the response or either result sequence: it is the same
  with all three pointers nil. Only without a transport error are the pointers read, and
  there a nil response or a nil result sequence is a panic.
\<close>

theorem handleResults_error_before_any_access:
  "handleResults typ path resp results errmsg (Some e) \<noteq> Panic
   \<and> handleResults typ path resp results errmsg (Some e)
       = handleResults typ' path' None None None (Some e)
   \<and> handleResults typ path None (Some rs) (Some es) (None :: 'e error option) = Panic
   \<and> handleResults typ path (Some rp) None (Some es) (None :: 'e error option) = Panic
   \<and> handleResults typ path (Some rp) (Some rs) None (None :: 'e error option) = Panic"
  by (simp add: handleResults_def Let_def)

section \<open>The verdict\<close>

text \<open>
  C1. With no transport error and all three pointers set, the call returns \<open>nil\<close>
  exactly when no item of the "results" sequence has a code of 400 or more, no item of the
  "error-channel" sequence has one, and the HTTP status code is below 400. In every other
  case it returns an error built by \<open>fmt.Errorf\<close>: the outcome is one of the two.
\<close>

theorem handleResults_success_iff:
  "(handleResults typ path (Some \<lparr>HttpResponse = Some hr\<rparr>) (Some results) (Some errmsg) None
      = (Return None :: 'e outcome)
    \<longleftrightarrow> (\<forall>r\<in>set (Results results). \<not> float64_ge (Code r) (Finite 400))
        \<and> (\<forall>r\<in>set (Results errmsg). \<not> float64_ge (Code r) (Finite 400))
        \<and> StatusCode hr < 400)
   \<and> (handleResults typ path (Some \<lparr>HttpResponse = Some hr\<rparr>) (Some results) (Some errmsg) None
        = (Return None :: 'e outcome)
      \<or> (\<exists>msg. handleResults typ path (Some \<lparr>HttpResponse = Some hr\<rparr>) (Some results)
             (Some errmsg) None = (Return (Some (Errorf msg)) :: 'e outcome)))"
  using accumulated_Nil_iff [of "Results results" "Results errmsg"]
  by (auto simp add: handleResults_present failing_def)

theorem handleResults_success_iff_witness:
  "handleResults ''update'' ''/hosts/web1''
      (Some \<lparr>HttpResponse = Some \<lparr>Status = ''200 OK'', StatusCode = 200\<rparr>\<rparr>)
      (Some \<lparr>Results = [\<lparr>Code = Finite 200, Errors = [], Status = ''ok'', Name = ''web1'',
                           Type = ''Host''\<rparr>]\<rparr>)
      (Some \<lparr>Results = []\<rparr>) None = (Return None :: unit outcome)
   \<and> handleResults ''update'' ''/hosts/web1''
      (Some \<lparr>HttpResponse = Some \<lparr>Status = ''200 OK'', StatusCode = 200\<rparr>\<rparr>)
      (Some \<lparr>Results = []\<rparr>)
      (Some \<lparr>Results = [\<lparr>Code = Finite 404, Errors = [], Status = ''gone'', Name = ''web1'',
                           Type = ''Host''\<rparr>]\<rparr>) None \<noteq> (Return None :: unit outcome)"
  using handleResults_success_iff [of "''update''" "''/hosts/web1''"
      "\<lparr>Status = ''200 OK'', StatusCode = 200\<rparr>"
      "\<lparr>Results = [\<lparr>Code = Finite 200, Errors = [], Status = ''ok'', Name = ''web1'',
                           Type = ''Host''\<rparr>]\<rparr>" "\<lparr>Results = []\<rparr>", where ?'e = unit]
    handleResults_success_iff [of "''update''" "''/hosts/web1''"
      "\<lparr>Status = ''200 OK'', StatusCode = 200\<rparr>" "\<lparr>Results = []\<rparr>"
      "\<lparr>Results = [\<lparr>Code = Finite 404, Errors = [], Status = ''gone'', Name = ''web1'',
                           Type = ''Host''\<rparr>]\<rparr>", where ?'e = unit]
  by simp

section \<open>The two message formats\<close>






section \<open>The accumulated report\<close>




text \<open>
  C10. An item with a code of 400 or more, an empty status and no error strings adds
  exactly two spaces to the report. With such an item in either sequence, no transport
  error and all pointers set, the report is not empty and the call returns an error, never
  \<open>nil\<close>, whatever the HTTP status code is.
\<close>

theorem handleResults_blank_failing_item:
  assumes "float64_ge (Code r) (Finite 400)" and "Result.Status r = []" and "Errors r = []"
    and "r \<in> set (Results results) \<union> set (Results errmsg)"
  shows "appendReport acc r = acc @ ''  ''
    \<and> scanResults (scanResults [] (Results results)) (Results errmsg) \<noteq> []
    \<and> handleResults typ path (Some \<lparr>HttpResponse = Some hr\<rparr>) (Some results) (Some errmsg) None
         \<noteq> (Return None :: 'e outcome)
    \<and> (\<exists>msg. handleResults typ path (Some \<lparr>HttpResponse = Some hr\<rparr>) (Some results)
           (Some errmsg) None = (Return (Some (Errorf msg)) :: 'e outcome))"
proof -
  from assms(1) have f: "failing r" by (simp add: failing_def)
  with assms(4) have ne: "accumulated (Results results) (Results errmsg) \<noteq> []"
    using accumulated_Nil_iff [of "Results results" "Results errmsg"] by auto
  have "appendReport acc r = acc @ ''  ''"
    using assms(1-3) by (simp add: appendReport_def)
  moreover have "scanResults (scanResults [] (Results results)) (Results errmsg) \<noteq> []"
    using ne by (simp add: scanResults_twice)
  moreover have "handleResults typ path (Some \<lparr>HttpResponse = Some hr\<rparr>) (Some results)
      (Some errmsg) None \<noteq> (Return None :: 'e outcome)"
    using ne by (simp add: handleResults_present)
  moreover have "\<exists>msg. handleResults typ path (Some \<lparr>HttpResponse = Some hr\<rparr>) (Some results)
           (Some errmsg) None = (Return (Some (Errorf msg)) :: 'e outcome)"
    using ne by (simp add: handleResults_present)
  ultimately show ?thesis by blast
qed

theorem handleResults_blank_failing_item_witness:
  "float64_ge (Code \<lparr>Code = Finite 400, Errors = [], Status = [], Name = [], Type = []\<rparr>)
      (Finite 400)
   \<and> appendReport [] \<lparr>Code = Finite 400, Errors = [], Status = [], Name = [], Type = []\<rparr>
       = ''  ''
   \<and> handleResults ''update'' ''/hosts/x''
        (Some \<lparr>HttpResponse = Some \<lparr>Status = ''200 OK'', StatusCode = 200\<rparr>\<rparr>)
        (Some \<lparr>Results = []\<rparr>)
        (Some \<lparr>Results = [\<lparr>Code = Finite 400, Errors = [], Status = [], Name = [],
                             Type = []\<rparr>]\<rparr>) None
       \<noteq> (Return None :: unit outcome)"
  using handleResults_blank_failing_item [of
      "\<lparr>Code = Finite 400, Errors = [], Status = [], Name = [], Type = []\<rparr>"
      "\<lparr>Results = []\<rparr>"
      "\<lparr>Results = [\<lparr>Code = Finite 400, Errors = [], Status = [], Name = [], Type = []\<rparr>]\<rparr>"
      "[]" "''update''" "''/hosts/x''" "\<lparr>Status = ''200 OK'', StatusCode = 200\<rparr>",
      where ?'e = unit]
  by simp

section \<open>Constructing the clients\<close>

text \<open>
  C6. \<open>New\<close> checks none of its inputs and returns a \<open>nil\<close> error for every
  configuration and every result of the system trust-root retrieval: user name,
  password, the three flags, the zone and the custom trust roots are kept as given, and
  the URL loses only its trailing slashes. In particular an error is returned in no other
  case than a failed retrieval. When no custom trust roots are given and the retrieval
  fails (no pool, an error), the client's trust roots stay unset and so do those of the
  TLS configuration.
\<close>

theorem New_never_fails:
  "snd (New sys s) = None
   \<and> Username (fst (New sys s)) = Username s
   \<and> Password (fst (New sys s)) = Password s
   \<and> Debug (fst (New sys s)) = Debug s
   \<and> InsecureTLS (fst (New sys s)) = InsecureTLS s
   \<and> WebClient.DisableKeepAlives (fst (New sys s)) = WebClient.DisableKeepAlives s
   \<and> Zone (fst (New sys s)) = Zone s
   \<and> WebClient.RootCAs (fst (New sys s)) = WebClient.RootCAs s
   \<and> URL (fst (New sys s)) = trimRightByte (URL s) (CHR ''/'')
   \<and> (WebClient.RootCAs s = None \<and> sys = (None, Some err) \<longrightarrow>
        WebClient.RootCAs (fst (New sys s)) = None
        \<and> Client (napping (fst (New sys s)))
            = Some \<lparr>Transport = \<lparr>TLSClientConfig =
                 \<lparr>InsecureSkipVerify = InsecureTLS s, RootCAs = None\<rparr>,
                 DisableKeepAlives = WebClient.DisableKeepAlives s\<rparr>\<rparr>)"
  by (simp add: New_def Let_def)

theorem New_never_fails_witness:
  "snd (New (None :: unit option, Some (Foreign ''no system roots''))
          \<lparr>napping = \<lparr>Log = False, Client = None, Userinfo = None\<rparr>,
           URL = ''https://icinga:5665/'', Username = ''root'', Password = ''secret'',
           Debug = False, InsecureTLS = False, DisableKeepAlives = True, Zone = ''master'',
           RootCAs = None\<rparr>) = None
   \<and> Client (napping (fst (New (None :: unit option, Some (Foreign ''no system roots''))
          \<lparr>napping = \<lparr>Log = False, Client = None, Userinfo = None\<rparr>,
           URL = ''https://icinga:5665/'', Username = ''root'', Password = ''secret'',
           Debug = False, InsecureTLS = False, DisableKeepAlives = True, Zone = ''master'',
           RootCAs = None\<rparr>)))
       = Some \<lparr>Transport = \<lparr>TLSClientConfig =
                 \<lparr>InsecureSkipVerify = False, RootCAs = None\<rparr>,
                 DisableKeepAlives = True\<rparr>\<rparr>"
  using New_never_fails [of "(None :: unit option, Some (Foreign ''no system roots''))"
          "\<lparr>napping = \<lparr>Log = False, Client = None, Userinfo = None\<rparr>,
           URL = ''https://icinga:5665/'', Username = ''root'', Password = ''secret'',
           Debug = False, InsecureTLS = False, DisableKeepAlives = True, Zone = ''master'',
           RootCAs = None\<rparr>" "Foreign ''no system roots''"]
  by simp

text \<open>
  C7. On a client built by \<open>New\<close> from a configuration \<open>c\<close>, \<open>CreateObject\<close> calls
  \<open>Put\<close>, and \<open>UpdateObject\<close> calls \<open>Post\<close>, with the URL made of the base URL of
  \<open>c\<close> without its trailing slashes, then \<open>/v1/objects\<close>, then the path; what the call
  gives back goes to \<open>handleResults\<close> with the kind \<open>create\<close>, respectively
  \<open>update\<close>, and the same path. The stripped base URL is the given one up to a run of
  slashes at the end and does not end in a slash itself.
\<close>

theorem CreateObject_UpdateObject_request:
  "CreateObject Put (fst (New sys c)) p obj
     = (case Put (napping (fst (New sys c)))
               (trimRightByte (URL c) (CHR ''/'') @ ''/v1/objects'' @ p) obj
               \<lparr>Results = []\<rparr> \<lparr>Results = []\<rparr> of
          (resp, results, errmsg, err) \<Rightarrow>
             handleResults ''create'' p resp (Some results) (Some errmsg) err)
   \<and> UpdateObject Post (fst (New sys c)) p obj
     = (case Post (napping (fst (New sys c)))
               (trimRightByte (URL c) (CHR ''/'') @ ''/v1/objects'' @ p) obj
               \<lparr>Results = []\<rparr> \<lparr>Results = []\<rparr> of
          (resp, results, errmsg, err) \<Rightarrow>
             handleResults ''update'' p resp (Some results) (Some errmsg) err)
   \<and> (\<exists>n. URL c = trimRightByte (URL c) (CHR ''/'') @ replicate n (CHR ''/''))
   \<and> (trimRightByte (URL c) (CHR ''/'') = []
        \<or> last (trimRightByte (URL c) (CHR ''/'')) \<noteq> CHR ''/'')"
proof -
  have u: "URL (fst (New sys c)) = trimRightByte (URL c) (CHR ''/'')"
    by (simp add: New_def Let_def)
  show ?thesis
    using trimRightByte_decomp [of "URL c" "CHR ''/''"] trimRightByte_last [of "URL c" "CHR ''/''"]
    by (simp add: CreateObject_def UpdateObject_def u Let_def)
qed

theorem CreateObject_UpdateObject_request_witness:
  "CreateObject (\<lambda>sess url payload r e. (None, r, e, Some (Foreign (''PUT '' @ url))))
      (fst (New (None :: unit option, None :: string error option)
          \<lparr>napping = \<lparr>Log = False, Client = None, Userinfo = None\<rparr>,
           URL = ''https://icinga:5665//'', Username = ''root'', Password = ''secret'',
           Debug = False, InsecureTLS = False, DisableKeepAlives = True, Zone = ''master'',
           RootCAs = None\<rparr>)) ''/hosts/x'' ()
     = Return (Some (Foreign ''PUT https://icinga:5665/v1/objects/hosts/x''))
   \<and> UpdateObject (\<lambda>sess url payload r e. (None, r, e, Some (Foreign (''POST '' @ url))))
      (fst (New (None :: unit option, None :: string error option)
          \<lparr>napping = \<lparr>Log = False, Client = None, Userinfo = None\<rparr>,
           URL = ''https://icinga:5665//'', Username = ''root'', Password = ''secret'',
           Debug = False, InsecureTLS = False, DisableKeepAlives = True, Zone = ''master'',
           RootCAs = None\<rparr>)) ''/hosts/x'' ()
     = Return (Some (Foreign ''POST https://icinga:5665/v1/objects/hosts/x''))
   \<and> last ''https://icinga:5665'' \<noteq> CHR ''/''"
  using CreateObject_UpdateObject_request [of
      "\<lambda>sess url payload r e. (None, r, e, Some (Foreign (''PUT '' @ url)))"
      "(None :: unit option, None :: string error option)"
      "\<lparr>napping = \<lparr>Log = False, Client = None, Userinfo = None\<rparr>,
           URL = ''https://icinga:5665//'', Username = ''root'', Password = ''secret'',
           Debug = False, InsecureTLS = False, DisableKeepAlives = True, Zone = ''master'',
           RootCAs = None\<rparr>" "''/hosts/x''" "()"
      "\<lambda>sess url payload r e. (None, r, e, Some (Foreign (''POST '' @ url)))"]
  by (simp add: trimRightByte.simps handleResults_def)

text \<open>
  C8. In the client that \<open>NewMockClient\<close> returns, the maps of host groups, hosts and
  services and the action log have no key: every lookup finds nothing.
\<close>

theorem NewMockClient_empty:
  "Hostgroups (NewMockClient :: ('hg, 'h, 's, 'a) MockClient) k1 = None
   \<and> Hosts (NewMockClient :: ('hg, 'h, 's, 'a) MockClient) k2 = None
   \<and> Services (NewMockClient :: ('hg, 'h, 's, 'a) MockClient) k3 = None
   \<and> Actions (NewMockClient :: ('hg, 'h, 's, 'a) MockClient) k4 = None
   \<and> dom (Hostgroups (NewMockClient :: ('hg, 'h, 's, 'a) MockClient)) = {}
   \<and> dom (Hosts (NewMockClient :: ('hg, 'h, 's, 'a) MockClient)) = {}
   \<and> dom (Services (NewMockClient :: ('hg, 'h, 's, 'a) MockClient)) = {}
   \<and> dom (Actions (NewMockClient :: ('hg, 'h, 's, 'a) MockClient)) = {}"
  by (simp add: NewMockClient_def)

end
